theory Spec2Isabelle
  imports Complex_Main "HOL-Library.Word"
begin

section \<open>The transcription relay bot (src/main.py)\<close>

text \<open>
  The program is a Flask webhook for a Telegram bot. It forwards \<open>/transcribe\<close>
  commands to a transcription service, polls the service from a background thread and
  sends the result back to the chat. This theory embeds its functions, in the order of
  the source file, and states the properties of the specification about them.
\<close>

subsection \<open>Python text and bytes\<close>

text \<open>
  A Python \<open>str\<close> is a sequence of Unicode code points and \<open>len\<close> counts code points,
  so text is a list of code points here. \<open>bytes\<close> is a list of 8-bit words.
\<close>

type_synonym pystr = "nat list"
type_synonym pybytes = "8 word list"

definition ascii :: "string \<Rightarrow> pystr" where
  "ascii s = map of_char s"

text \<open>\<open>s.startswith(p)\<close>.\<close>

definition startswith :: "pystr \<Rightarrow> pystr \<Rightarrow> bool" where
  "startswith s p = (take (length p) s = p)"

text \<open>The slice \<open>s[i : j]\<close> for \<open>0 \<le> i \<le> j\<close>; Python clips it at the end of \<open>s\<close>.\<close>

definition slice :: "'a list \<Rightarrow> nat \<Rightarrow> nat \<Rightarrow> 'a list" where
  "slice s i j = take (j - i) (drop i s)"

text \<open>
  \<open>range(i, stop, step)\<close> for a positive step, as the list of the indices a
  \<open>for\<close> loop visits. (Python rejects a step of 0; the only step used is 4096.)
\<close>

function py_range :: "nat \<Rightarrow> nat \<Rightarrow> nat \<Rightarrow> nat list" where
  "py_range i stop step =
     (if step = 0 \<or> stop \<le> i then [] else i # py_range (i + step) stop step)"
  by pat_completeness auto
termination
  by (relation "measure (\<lambda>(i, stop, step). stop - i)") auto

declare py_range.simps [simp del]

text \<open>\<open>str(n)\<close> for an integer: its decimal digits, with a minus sign when negative.\<close>

function str_nat :: "nat \<Rightarrow> pystr" where
  "str_nat n = (if n < 10 then [48 + n] else str_nat (n div 10) @ [48 + n mod 10])"
  by pat_completeness auto
termination
  by (relation "measure id") auto

declare str_nat.simps [simp del]

definition str_int :: "int \<Rightarrow> pystr" where
  "str_int n = (if n < 0 then 45 # str_nat (nat (- n)) else str_nat (nat n))"

text \<open>
  \<open>s.encode("utf-8")\<close>. A surrogate code point (U+D800 to U+DFFF, which a JSON
  string can carry as a lone escape) cannot be encoded: Python raises
  \<open>UnicodeEncodeError\<close>.
\<close>

definition utf8_char :: "nat \<Rightarrow> pybytes" where
  "utf8_char c =
     (if c < 0x80 then [of_nat c]
      else if c < 0x800 then [of_nat (0xC0 + c div 0x40), of_nat (0x80 + c mod 0x40)]
      else if c < 0x10000 then
        [of_nat (0xE0 + c div 0x1000), of_nat (0x80 + c div 0x40 mod 0x40),
         of_nat (0x80 + c mod 0x40)]
      else
        [of_nat (0xF0 + c div 0x40000), of_nat (0x80 + c div 0x1000 mod 0x40),
         of_nat (0x80 + c div 0x40 mod 0x40), of_nat (0x80 + c mod 0x40)])"

definition encodable :: "pystr \<Rightarrow> bool" where
  "encodable s = (\<forall>c \<in> set s. \<not> (0xD800 \<le> c \<and> c \<le> 0xDFFF))"

subsection \<open>Errors, HTTP responses and observable events\<close>

text \<open>
  The body of a response as \<open>resp.json()\<close> reads it: a JSON object, taken as a map from
  field names to strings (the fields this program reads, \<open>order_id\<close>, \<open>content\<close> and
  \<open>presigned_url\<close>, are strings in the service's schema when they are present).
\<close>

type_synonym json_object = "pystr \<rightharpoonup> pystr"

text \<open>
  What the program looks at in a \<open>requests.Response\<close>: \<open>status_code\<close>, the body text
  \<open>resp.text\<close> (\<open>resp.content\<close> is empty exactly when it is), and the result of
  \<open>resp.json()\<close>, which is \<open>None\<close> when the body is not valid JSON.
\<close>

record response =
  status_code :: int
  body_text :: pystr
  json :: "json_object option"

text \<open>The exceptions that the program or its library calls raise.\<close>

datatype error =
    RequestException       \<comment> \<open>\<open>requests.post\<close> raised: no connection, timeout\<close>
  | JSONDecodeError        \<comment> \<open>\<open>resp.json()\<close> on a body that is not JSON\<close>
  | HTTPError response     \<comment> \<open>\<open>resp.raise_for_status()\<close>, with \<open>e.response\<close>\<close>
  | KeyError pystr         \<comment> \<open>\<open>data[key]\<close> on a missing key\<close>
  | UnicodeEncodeError     \<comment> \<open>\<open>str.encode\<close> on a surrogate\<close>
  | BadRequest             \<comment> \<open>Flask's \<open>get_json(force=True)\<close> on an unparseable body\<close>

text \<open>
  What one call of \<open>requests.post\<close> does: it returns a response, or it raises a
  \<open>RequestException\<close> (\<open>None\<close>: the connection failed or the \<open>timeout\<close> passed).
  It never raises \<open>HTTPError\<close>, which only \<open>raise_for_status\<close> does.
\<close>

type_synonym http_outcome = "response option"

text \<open>The requests the program issues, with the parameters it passes.\<close>

datatype request =
    SendMessage int pystr "int option"   \<comment> \<open>\<open>chat_id\<close>, \<open>text\<close>, \<open>reply_to_message_id\<close>\<close>
  | SendDocument int pystr pybytes pystr \<comment> \<open>\<open>chat_id\<close>, file name, file bytes, caption\<close>
  | CreateOrder pystr pystr pystr        \<comment> \<open>\<open>url\<close>, \<open>service\<close>, \<open>language\<close>\<close>
  | ExportOrder pystr                    \<comment> \<open>\<open>order_id\<close>\<close>

text \<open>
  The effects of a run, in order: a request sent, a line printed, a sleep, a thread
  started on \<open>poll_and_send\<close> with its two arguments.
\<close>

datatype event =
    Http request
  | Print pystr
  | Sleep nat
  | ThreadStart pystr int

text \<open>
  A call yields the events it caused and either the exception it raised (\<open>Inl\<close>) or the
  value it returned (\<open>Inr\<close>).
\<close>

type_synonym 'a run = "event list \<times> (error + 'a)"

text \<open>\<open>resp.ok\<close>: \<open>raise_for_status\<close> raises for a status from 400 to 599 only.\<close>

definition ok :: "response \<Rightarrow> bool" where
  "ok resp = (\<not> (400 \<le> status_code resp \<and> status_code resp < 600))"

subsection \<open>Helpers: Telegram\<close>

text \<open>
  \<open>send_telegram_request(method, **params)\<close>. The first argument is what
  \<open>requests.post\<close> does on this call. A response that is not \<open>ok\<close> is printed; then
  \<open>resp.json()\<close> is returned, which raises when the body is not JSON.
\<close>

definition en_dash :: nat where
  "en_dash = 0x2013"

definition send_telegram_request ::
  "http_outcome \<Rightarrow> pystr \<Rightarrow> request \<Rightarrow> json_object run" where
  "send_telegram_request post method params =
     (case post of
        None \<Rightarrow> ([Http params], Inl RequestException)
      | Some resp \<Rightarrow>
          ([Http params] @
           (if \<not> ok resp
            then [Print (ascii ''[Telegram] '' @ method @ ascii '' failed: '' @
                         str_int (status_code resp) @ ascii '' '' @ [en_dash] @ ascii '' '' @
                         body_text resp)]
            else []),
           (case json resp of None \<Rightarrow> Inl JSONDecodeError | Some j \<Rightarrow> Inr j)))"

text \<open>
  \<open>send_message(chat_id, text, reply_to)\<close>: one \<open>sendMessage\<close> request for each index of
  \<open>range(0, len(text), max_len)\<close>. The first argument gives what \<open>requests.post\<close> does on
  the k-th request to the platform; the loop carries the number of requests made so far.
  An exception of a request ends the loop.
\<close>

definition max_len :: nat where
  "max_len = 4096"

fun send_message_loop ::
  "(nat \<Rightarrow> http_outcome) \<Rightarrow> nat \<Rightarrow> int \<Rightarrow> pystr \<Rightarrow> int option \<Rightarrow> nat list \<Rightarrow> unit run" where
  "send_message_loop tg k chat_id text reply_to [] = ([], Inr ())"
| "send_message_loop tg k chat_id text reply_to (i # is) =
     (let part = slice text i (i + max_len) in
      case send_telegram_request (tg k) (ascii ''sendMessage'')
             (SendMessage chat_id part reply_to) of
        (evs, Inl e) \<Rightarrow> (evs, Inl e)
      | (evs, Inr _) \<Rightarrow>
          (case send_message_loop tg (Suc k) chat_id text reply_to is of
             (evs', r) \<Rightarrow> (evs @ evs', r)))"

definition send_message :: "(nat \<Rightarrow> http_outcome) \<Rightarrow> int \<Rightarrow> pystr \<Rightarrow> int option \<Rightarrow> unit run" where
  "send_message tg chat_id text reply_to =
     send_message_loop tg 0 chat_id text reply_to (py_range 0 (length text) max_len)"

text \<open>
  \<open>send_document(chat_id, file_name, file_bytes, caption)\<close>: one upload; a response that
  is not \<open>ok\<close> is printed, and the body is not read.
\<close>

definition send_document ::
  "http_outcome \<Rightarrow> int \<Rightarrow> pystr \<Rightarrow> pybytes \<Rightarrow> pystr \<Rightarrow> unit run" where
  "send_document post chat_id file_name file_bytes caption =
     (case post of
        None \<Rightarrow>
          ([Http (SendDocument chat_id file_name file_bytes caption)], Inl RequestException)
      | Some resp \<Rightarrow>
          ([Http (SendDocument chat_id file_name file_bytes caption)] @
           (if \<not> ok resp
            then [Print (ascii ''[Telegram] sendDocument failed: '' @
                         str_int (status_code resp) @ ascii '' '' @ [en_dash] @ ascii '' '' @
                         body_text resp)]
            else []),
           Inr ()))"

text \<open>
  The parts that one \<open>send_message\<close> call cuts a text into, and the requests it sends for
  them when no request raises.
\<close>

definition chunks :: "pystr \<Rightarrow> pystr list" where
  "chunks text = map (\<lambda>i. slice text i (i + max_len)) (py_range 0 (length text) max_len)"

definition message_requests :: "int \<Rightarrow> pystr \<Rightarrow> int option \<Rightarrow> request list" where
  "message_requests chat_id text reply_to =
     map (\<lambda>part. SendMessage chat_id part reply_to) (chunks text)"

text \<open>The requests among the events of a run, in order.\<close>

fun requests :: "event list \<Rightarrow> request list" where
  "requests [] = []"
| "requests (Http r # evs) = r # requests evs"
| "requests (_ # evs) = requests evs"

text \<open>
  The platform answers every request: \<open>requests.post\<close> returns a response and its body
  is JSON (the platform's API answers in JSON, also on an error).
\<close>

definition answers :: "http_outcome \<Rightarrow> bool" where
  "answers post = (case post of None \<Rightarrow> False | Some resp \<Rightarrow> json resp \<noteq> None)"

text \<open>The lines printed among the events of a run, and the sleeps.\<close>

fun prints :: "event list \<Rightarrow> pystr list" where
  "prints [] = []"
| "prints (Print l # evs) = l # prints evs"
| "prints (_ # evs) = prints evs"

fun sleeps :: "event list \<Rightarrow> nat list" where
  "sleeps [] = []"
| "sleeps (Sleep n # evs) = n # sleeps evs"
| "sleeps (_ # evs) = sleeps evs"

fun thread_starts :: "event list \<Rightarrow> (pystr \<times> int) list" where
  "thread_starts [] = []"
| "thread_starts (ThreadStart order_id chat_id # evs) = (order_id, chat_id) # thread_starts evs"
| "thread_starts (_ # evs) = thread_starts evs"

subsection \<open>Helpers: Transkriptor\<close>

text \<open>
  \<open>create_transcription(youtube_url, language, service)\<close>: one creation request;
  \<open>raise_for_status\<close> raises \<open>HTTPError\<close> for a status from 400 to 599, \<open>resp.json()\<close>
  raises on a body that is not JSON, and \<open>data["order_id"]\<close> raises \<open>KeyError\<close> when
  the field is missing.
\<close>

definition raise_for_status :: "response \<Rightarrow> error + unit" where
  "raise_for_status resp =
     (if 400 \<le> status_code resp \<and> status_code resp < 600 then Inl (HTTPError resp)
      else Inr ())"

definition create_transcription :: "http_outcome \<Rightarrow> pystr \<Rightarrow> pystr \<Rightarrow> pystr \<Rightarrow> pystr run" where
  "create_transcription post youtube_url language service =
     (case post of
        None \<Rightarrow> ([Http (CreateOrder youtube_url service language)], Inl RequestException)
      | Some resp \<Rightarrow>
          ([Http (CreateOrder youtube_url service language)],
           (case raise_for_status resp of
              Inl e \<Rightarrow> Inl e
            | Inr _ \<Rightarrow>
                (case json resp of
                   None \<Rightarrow> Inl JSONDecodeError
                 | Some data \<Rightarrow>
                     (case data (ascii ''order_id'') of
                        None \<Rightarrow> Inl (KeyError (ascii ''order_id''))
                      | Some order_id \<Rightarrow> Inr order_id)))))"

text \<open>
  \<open>export_transcription(order_id)\<close> returns \<open>(status_code, json)\<close>: the body is parsed
  only when it is not empty, and an empty body counts as the empty object.
\<close>

definition export_transcription :: "http_outcome \<Rightarrow> pystr \<Rightarrow> (int \<times> json_object) run" where
  "export_transcription post order_id =
     (case post of
        None \<Rightarrow> ([Http (ExportOrder order_id)], Inl RequestException)
      | Some resp \<Rightarrow>
          ([Http (ExportOrder order_id)],
           (if body_text resp \<noteq> [] then
              (case json resp of
                 None \<Rightarrow> Inl JSONDecodeError
               | Some data \<Rightarrow> Inr (status_code resp, data))
            else Inr (status_code resp, Map.empty))))"

subsection \<open>Background job\<close>

text \<open>
  The truth value of \<open>data.get(key)\<close> in an \<open>if\<close>: a missing field and the empty
  string are both false.
\<close>

definition truthy :: "pystr option \<Rightarrow> bool" where
  "truthy v = (case v of None \<Rightarrow> False | Some s \<Rightarrow> s \<noteq> [])"

text \<open>\<open>content.encode("utf-8")\<close>, which raises on a surrogate.\<close>

definition encode_utf8 :: "pystr \<Rightarrow> error + pybytes" where
  "encode_utf8 s = (if encodable s then Inr (concat (map utf8_char s)) else Inl UnicodeEncodeError)"

text \<open>
  One pass through the body of the \<open>while True\<close> loop of \<open>poll_and_send\<close>, after
  \<open>export_transcription\<close> has returned \<open>(status_code, data)\<close>: the pass ends in
  \<open>break\<close>, with the run of the send it made, or it goes round again after a sleep.
  \<open>POLL_INTERVAL\<close> is a parameter, a number of seconds (\<open>time.sleep\<close> takes no negative
  one). \<open>tg\<close> gives what \<open>requests.post\<close> does on the k-th request to the platform.
\<close>

datatype step = Continue "event list" | Break "unit run"

definition poll_iteration ::
  "(nat \<Rightarrow> http_outcome) \<Rightarrow> nat \<Rightarrow> pystr \<Rightarrow> int \<Rightarrow> int \<Rightarrow> json_object \<Rightarrow> step" where
  "poll_iteration tg poll_interval order_id chat_id status data =
     (if status = 200 then
        (let content = data (ascii ''content'');
             presigned_url = data (ascii ''presigned_url'')
         in if truthy content then
              (case encode_utf8 (the content) of
                 Inl e \<Rightarrow> Break ([], Inl e)
               | Inr file_bytes \<Rightarrow>
                   Break (send_document (tg 0) chat_id (order_id @ ascii ''.txt'') file_bytes
                            (ascii ''Here is your transcript!'')))
            else if truthy presigned_url then
              Break (send_message tg chat_id
                       (ascii ''Transcription is ready: '' @ the presigned_url) None)
            else
              Break (send_message tg chat_id
                       (ascii ''Transcription completed but no content was returned.'') None))
      else if status = 202 then
        Continue [Print (ascii ''[Poll] Order '' @ order_id @ ascii '' still processing...''),
                  Sleep poll_interval]
      else
        Break (send_message tg chat_id
                 (ascii ''Failed to retrieve transcript (status: '' @ str_int status @ ascii '').'')
                 None))"

text \<open>
  \<open>poll_and_send(order_id, chat_id)\<close>. \<open>ex\<close> gives what \<open>requests.post\<close> does on the
  k-th export request. The loop has no bound, so the function is partial: \<open>None\<close> is a
  run that never ends. The loop carries the number of export requests made and the
  events so far.
\<close>

partial_function (option) poll_loop ::
  "(nat \<Rightarrow> http_outcome) \<Rightarrow> (nat \<Rightarrow> http_outcome) \<Rightarrow> nat \<Rightarrow> pystr \<Rightarrow> int \<Rightarrow> nat \<Rightarrow> event list
     \<Rightarrow> unit run option" where
  "poll_loop ex tg poll_interval order_id chat_id k acc =
     (case export_transcription (ex k) order_id of
        (evs, Inl e) \<Rightarrow> Some (acc @ evs, Inl e)
      | (evs, Inr (status, data)) \<Rightarrow>
          (case poll_iteration tg poll_interval order_id chat_id status data of
             Break (evs', r) \<Rightarrow> Some (acc @ evs @ evs', r)
           | Continue evs' \<Rightarrow>
               poll_loop ex tg poll_interval order_id chat_id (Suc k) (acc @ evs @ evs')))"

definition poll_and_send ::
  "(nat \<Rightarrow> http_outcome) \<Rightarrow> (nat \<Rightarrow> http_outcome) \<Rightarrow> nat \<Rightarrow> pystr \<Rightarrow> int \<Rightarrow> unit run option" where
  "poll_and_send ex tg poll_interval order_id chat_id =
     poll_loop ex tg poll_interval order_id chat_id 0 []"

subsection \<open>Flask app\<close>

text \<open>
  \<open>str.isspace\<close> for one code point, as \<open>strip()\<close> and \<open>split()\<close> without a separator
  use it.
\<close>

definition isspace :: "nat \<Rightarrow> bool" where
  "isspace c =
     ((9 \<le> c \<and> c \<le> 13) \<or> (28 \<le> c \<and> c \<le> 32) \<or> c = 0x85 \<or> c = 0xA0 \<or> c = 0x1680 \<or>
      (0x2000 \<le> c \<and> c \<le> 0x200A) \<or> c = 0x2028 \<or> c = 0x2029 \<or> c = 0x202F \<or>
      c = 0x205F \<or> c = 0x3000)"

definition strip :: "pystr \<Rightarrow> pystr" where
  "strip s = rev (dropWhile isspace (rev (dropWhile isspace s)))"

text \<open>
  \<open>s.split(maxsplit=1)\<close>: the first word, and what follows the whitespace after it when
  that is not empty.
\<close>

definition split_maxsplit1 :: "pystr \<Rightarrow> pystr list" where
  "split_maxsplit1 s =
     (let s1 = dropWhile isspace s in
      if s1 = [] then []
      else
        (let word = takeWhile (\<lambda>c. \<not> isspace c) s1;
             rest = dropWhile isspace (dropWhile (\<lambda>c. \<not> isspace c) s1)
         in if rest = [] then [word] else [word, rest]))"

text \<open>
  The message object of an update, in the platform's schema: \<open>chat.id\<close> is always there
  (\<open>msg_chat_id\<close>), \<open>text\<close> may be missing (\<open>msg_text\<close>). An update is a JSON object that may have a \<open>message\<close> or an
  \<open>edited_message\<close> field; an empty update has neither, and both early returns of the
  handler give the same reply.
\<close>

record message =
  msg_chat_id :: int
  msg_text :: "pystr option"

type_synonym update = "pystr \<rightharpoonup> message"

text \<open>\<open>update.get("message") or update.get("edited_message")\<close>.\<close>

definition update_message :: "update \<Rightarrow> message option" where
  "update_message update =
     (case update (ascii ''message'') of
        Some m \<Rightarrow> Some m
      | None \<Rightarrow> update (ascii ''edited_message''))"

text \<open>The reply \<open>jsonify(body), status\<close>.\<close>

type_synonym reply = "json_object \<times> int"

definition check_mark :: nat where
  "check_mark = 0x2705"

definition cross_mark :: nat where
  "cross_mark = 0x274C"

text \<open>
  \<open>telegram_webhook()\<close>. \<open>body\<close> is the result of \<open>request.get_json(force=True)\<close>,
  \<open>None\<close> when the body does not parse (Flask then raises \<open>BadRequest\<close>);
  \<open>create\<close> is what \<open>requests.post\<close> does on the creation request. The \<open>try\<close> block
  catches \<open>HTTPError\<close> only, which only \<open>create_transcription\<close> raises.
\<close>

definition telegram_webhook ::
  "http_outcome \<Rightarrow> (nat \<Rightarrow> http_outcome) \<Rightarrow> update option \<Rightarrow> reply run" where
  "telegram_webhook create tg body =
     (case body of
        None \<Rightarrow> ([], Inl BadRequest)
      | Some update \<Rightarrow>
          (case update_message update of
             None \<Rightarrow> ([], Inr (Map.empty, 200))
           | Some message \<Rightarrow>
               (let chat = msg_chat_id message;
                    txt = strip (case msg_text message of None \<Rightarrow> [] | Some t \<Rightarrow> t)
                in if startswith txt (ascii ''/transcribe'') then
                     (case split_maxsplit1 txt of
                        [command, youtube_url] \<Rightarrow>
                          (case create_transcription create youtube_url (ascii ''en-US'')
                                  (ascii ''Standard'') of
                             (evs, Inr order_id) \<Rightarrow>
                               (case send_message tg chat
                                       ([check_mark] @ ascii '' Transcription started! Order ID: '' @
                                        order_id @ [10] @ ascii ''I'' @ [39] @
                                        ascii ''ll notify you when it'' @ [39] @
                                        ascii ''s ready.'') None of
                                  (evs', Inl e) \<Rightarrow> (evs @ evs', Inl e)
                                | (evs', Inr _) \<Rightarrow>
                                    (evs @ evs' @ [ThreadStart order_id chat],
                                     Inr (Map.empty, 200)))
                           | (evs, Inl (HTTPError resp)) \<Rightarrow>
                               (case send_message tg chat
                                       ([cross_mark] @
                                        ascii '' Failed to create transcription: '' @
                                        body_text resp) None of
                                  (evs', Inl e) \<Rightarrow> (evs @ evs', Inl e)
                                | (evs', Inr _) \<Rightarrow> (evs @ evs', Inr (Map.empty, 200)))
                           | (evs, Inl e) \<Rightarrow> (evs, Inl e))
                      | _ \<Rightarrow>
                          (case send_message tg chat (ascii ''Usage: /transcribe <YouTube URL>'')
                                  None of
                             (evs, Inl e) \<Rightarrow> (evs, Inl e)
                           | (evs, Inr _) \<Rightarrow> (evs, Inr (Map.empty, 200))))
                   else
                     (case send_message tg chat
                             (ascii ''Send /transcribe <YouTube URL> to start a transcription.'')
                             None of
                        (evs, Inl e) \<Rightarrow> (evs, Inl e)
                      | (evs, Inr _) \<Rightarrow> (evs, Inr (Map.empty, 200))))))"

text \<open>
  The status of the HTTP response that Flask gives for a run of the handler: the
  returned status, 400 for \<open>BadRequest\<close>, and 500 for any other exception.
\<close>

definition http_status :: "reply run \<Rightarrow> int" where
  "http_status run =
     (case snd run of Inr (body, status) \<Rightarrow> status | Inl BadRequest \<Rightarrow> 400 | Inl _ \<Rightarrow> 500)"

subsection \<open>Notions of the specification\<close>

text \<open>The target URLs of the creation requests among the events of a run.\<close>

fun orders :: "event list \<Rightarrow> pystr list" where
  "orders [] = []"
| "orders (Http (CreateOrder url service language) # evs) = url # orders evs"
| "orders (_ # evs) = orders evs"


text \<open>
  The command form in the words of the specification: the text begins with the command
  token, followed by whitespace and a non-empty argument.
\<close>

definition spec_command :: "pystr \<Rightarrow> bool" where
  "spec_command txt =
     (startswith txt (ascii ''/transcribe'') \<and>
      (case drop 11 txt of
         [] \<Rightarrow> False
       | c # cs \<Rightarrow> isspace c \<and> dropWhile isspace cs \<noteq> []))"

text \<open>
  What the handler does after a send on most of its paths: the exception of the send
  goes on, and otherwise the reply is \<open>jsonify({}), 200\<close>.
\<close>

definition reply_after :: "unit run \<Rightarrow> reply run" where
  "reply_after run =
     (case run of
        (evs, Inl e) \<Rightarrow> (evs, Inl e)
      | (evs, Inr _) \<Rightarrow> (evs, Inr (Map.empty, 200)))"

text \<open>The trimmed text of a message: \<open>message.get("text", "").strip()\<close>.\<close>

definition trimmed_text :: "message \<Rightarrow> pystr" where
  "trimmed_text m = strip (case msg_text m of None \<Rightarrow> [] | Some t \<Rightarrow> t)"

text \<open>The identifier field of the body of a response, when the body is JSON and has it.\<close>

definition order_id_of :: "response \<Rightarrow> pystr option" where
  "order_id_of resp =
     (case json resp of None \<Rightarrow> None | Some data \<Rightarrow> data (ascii ''order_id''))"

text \<open>
  The status that an export call returns, \<open>None\<close> when the call raises instead.
\<close>

definition export_status :: "http_outcome \<Rightarrow> pystr \<Rightarrow> int option" where
  "export_status post order_id =
     (case snd (export_transcription post order_id) of
        Inl e \<Rightarrow> None
      | Inr (status, data) \<Rightarrow> Some status)"

text \<open>The events of \<open>n\<close> passes of the poll loop that all found the order still in process.\<close>

definition waiting :: "pystr \<Rightarrow> nat \<Rightarrow> nat \<Rightarrow> event list" where
  "waiting order_id poll_interval n =
     concat (replicate n
       [Http (ExportOrder order_id),
        Print (ascii ''[Poll] Order '' @ order_id @ ascii '' still processing...''),
        Sleep poll_interval])"

subsection \<open>Sample values\<close>

text \<open>A response of the platform to a request that went through.\<close>

definition ok_response :: response where
  "ok_response = \<lparr>status_code = 200, body_text = ascii ''ok'', json = Some Map.empty\<rparr>"

text \<open>A refusal of the platform, with a JSON body, and one of a proxy, without.\<close>

definition error_response :: response where
  "error_response =
     \<lparr>status_code = 403, body_text = ascii ''Forbidden'', json = Some Map.empty\<rparr>"

definition gateway_response :: response where
  "gateway_response =
     \<lparr>status_code = 502, body_text = ascii ''Bad Gateway'', json = None\<rparr>"

text \<open>A platform that answers every request, one that refuses every request, one that
  cannot be reached.\<close>

definition platform_ok :: "nat \<Rightarrow> http_outcome" where
  "platform_ok k = Some ok_response"

definition platform_refuses :: "nat \<Rightarrow> http_outcome" where
  "platform_refuses k = Some error_response"

definition platform_down :: "nat \<Rightarrow> http_outcome" where
  "platform_down k = None"

text \<open>Responses of the transcription service to a creation request.\<close>

definition created_response :: response where
  "created_response =
     \<lparr>status_code = 200, body_text = ascii ''{order_id: abc123}'',
      json = Some [ascii ''order_id'' \<mapsto> ascii ''abc123'']\<rparr>"

definition multiple_choices_response :: response where
  "multiple_choices_response = created_response\<lparr>status_code := 300\<rparr>"

definition bad_request_response :: response where
  "bad_request_response =
     \<lparr>status_code = 400, body_text = ascii ''bad url'', json = Some Map.empty\<rparr>"

definition no_identifier_response :: response where
  "no_identifier_response =
     \<lparr>status_code = 200, body_text = ascii ''{}'', json = Some Map.empty\<rparr>"

text \<open>Bodies of export responses: a transcript, an empty transcript, a link.\<close>

definition hello_data :: json_object where
  "hello_data = [ascii ''content'' \<mapsto> ascii ''hello'']"

definition empty_content_data :: json_object where
  "empty_content_data = [ascii ''content'' \<mapsto> []]"

definition link_data :: json_object where
  "link_data = [ascii ''presigned_url'' \<mapsto> ascii ''https://files/abc123'']"

text \<open>
  Export responses: still processing, done with a transcript, and a service that never
  finishes or that finishes at the third request.
\<close>

definition processing_response :: response where
  "processing_response = \<lparr>status_code = 202, body_text = [], json = None\<rparr>"

definition hello_response :: response where
  "hello_response =
     \<lparr>status_code = 200, body_text = ascii ''{content: hello}'', json = Some hello_data\<rparr>"


definition done_at_third :: "nat \<Rightarrow> http_outcome" where
  "done_at_third k = (if k < 2 then Some processing_response else Some hello_response)"

section \<open>Properties\<close>

subsection \<open>Chunking of long messages\<close>










lemma requests_append: "requests (xs @ ys) = requests xs @ requests ys"
  by (induction xs rule: requests.induct) simp_all

lemma send_telegram_request_answers:
  "answers post \<Longrightarrow> \<exists>evs j. send_telegram_request post method params = (evs, Inr j) \<and> requests evs = [params]"
  by (auto simp: answers_def send_telegram_request_def split: option.splits)

lemma send_message_loop_answers:
  "(\<forall>n < length is. answers (tg (k + n))) \<Longrightarrow>
   requests (fst (send_message_loop tg k chat_id text reply_to is)) =
     map (\<lambda>i. SendMessage chat_id (slice text i (i + max_len)) reply_to) is \<and>
   snd (send_message_loop tg k chat_id text reply_to is) = Inr ()"
proof (induction "is" arbitrary: k)
  case Nil
  then show ?case by simp
next
  case (Cons i "is")
  from Cons.prems [rule_format, of 0] have "answers (tg k)" by simp
  then obtain evs j where s: "send_telegram_request (tg k) (ascii ''sendMessage'')
      (SendMessage chat_id (slice text i (i + max_len)) reply_to) = (evs, Inr j)"
      "requests evs = [SendMessage chat_id (slice text i (i + max_len)) reply_to]"
    using send_telegram_request_answers by blast
  have "\<forall>n < length is. answers (tg (Suc k + n))"
  proof (intro allI impI)
    fix n assume "n < length is"
    with Cons.prems [rule_format, of "Suc n"] show "answers (tg (Suc k + n))" by simp
  qed
  from Cons.IH [OF this]
  have "requests (fst (send_message_loop tg (Suc k) chat_id text reply_to is)) =
          map (\<lambda>i. SendMessage chat_id (slice text i (i + max_len)) reply_to) is"
       "snd (send_message_loop tg (Suc k) chat_id text reply_to is) = Inr ()"
    by simp_all
  with s show ?case
    by (cases "send_message_loop tg (Suc k) chat_id text reply_to is")
       (simp add: requests_append)
qed


lemma prints_append: "prints (xs @ ys) = prints xs @ prints ys"
  by (induction xs rule: prints.induct) simp_all

lemma send_message_loop_failed:
  "(\<forall>n < length is. \<exists>resp. tg (k + n) = Some resp \<and> \<not> ok resp \<and> json resp \<noteq> None) \<Longrightarrow>
   length (prints (fst (send_message_loop tg k chat_id text reply_to is))) = length is"
proof (induction "is" arbitrary: k)
  case Nil
  then show ?case by simp
next
  case (Cons i "is")
  from Cons.prems [rule_format, of 0] obtain resp where
    r: "tg k = Some resp" "\<not> ok resp" "json resp \<noteq> None" by auto
  have "\<forall>n < length is. \<exists>resp. tg (Suc k + n) = Some resp \<and> \<not> ok resp \<and> json resp \<noteq> None"
  proof (intro allI impI)
    fix n assume "n < length is"
    with Cons.prems [rule_format, of "Suc n"]
    show "\<exists>resp. tg (Suc k + n) = Some resp \<and> \<not> ok resp \<and> json resp \<noteq> None" by simp
  qed
  from Cons.IH [OF this] r show ?case
    by (cases "send_message_loop tg (Suc k) chat_id text reply_to is")
       (auto simp: send_telegram_request_def prints_append)
qed



lemma chunks_short: "text \<noteq> [] \<Longrightarrow> length text \<le> 4096 \<Longrightarrow> chunks text = [text]"
  by (simp add: chunks_def max_len_def py_range.simps [of 0] py_range.simps [of 4096] slice_def)

lemma chunks_empty: "chunks [] = []"
  by (simp add: chunks_def py_range.simps)


subsection \<open>A text that fits in one message\<close>

lemma send_message_single:
  "text \<noteq> [] \<Longrightarrow> length text \<le> 4096 \<Longrightarrow>
   send_message tg chat_id text reply_to =
     (case send_telegram_request (tg 0) (ascii ''sendMessage'') (SendMessage chat_id text reply_to) of
        (evs, Inl e) \<Rightarrow> (evs, Inl e)
      | (evs, Inr _) \<Rightarrow> (evs, Inr ()))"
  by (simp add: send_message_def max_len_def py_range.simps [of 0] py_range.simps [of 4096] slice_def
           split: prod.splits sum.splits)

lemma requests_send_telegram_request:
  "requests (fst (send_telegram_request post method params)) = [params]"
  by (simp add: send_telegram_request_def split: option.splits)

lemma send_message_single_requests:
  "text \<noteq> [] \<Longrightarrow> length text \<le> 4096 \<Longrightarrow>
   requests (fst (send_message tg chat_id text reply_to)) = [SendMessage chat_id text reply_to]"
  using requests_send_telegram_request [of "tg 0" "ascii ''sendMessage''" "SendMessage chat_id text reply_to"]
  by (cases "send_telegram_request (tg 0) (ascii ''sendMessage'') (SendMessage chat_id text reply_to)")
     (auto simp: send_message_single split: sum.splits)

lemma send_message_single_answers:
  "text \<noteq> [] \<Longrightarrow> length text \<le> 4096 \<Longrightarrow> answers (tg 0) \<Longrightarrow>
   snd (send_message tg chat_id text reply_to) = Inr ()"
  by (auto simp: send_message_single answers_def send_telegram_request_def split: option.splits)

subsection \<open>Failed sends\<close>

lemma send_document_response:
  "send_document (Some resp) chat_id file_name file_bytes caption =
     ([Http (SendDocument chat_id file_name file_bytes caption)] @
      (if ok resp then []
       else [Print (ascii ''[Telegram] sendDocument failed: '' @ str_int (status_code resp) @
                    ascii '' '' @ [en_dash] @ ascii '' '' @ body_text resp)]),
      Inr ())"
  by (simp add: send_document_def)

text \<open>
  Claim C6 as stated fails: when \<open>requests.post\<close> itself raises (no connection, or the
  timeout that both helpers set has passed), neither helper catches the exception, and
  the caller gets it.
\<close>

theorem notifier_raises_counterexample:
  "send_document None 7 (ascii ''a.txt'') [] [] =
     ([Http (SendDocument 7 (ascii ''a.txt'') [] [])], Inl RequestException) \<and>
   send_message platform_down 7 (ascii ''hi'') None =
     ([Http (SendMessage 7 (ascii ''hi'') None)], Inl RequestException)"
  by (simp add: send_document_def send_message_single send_telegram_request_def
        platform_down_def ascii_def)

text \<open>
  Claim C6, amended. When the platform answers a send with a response that is not
  \<open>ok\<close>, the failure is only printed: \<open>send_document\<close> prints one line and returns,
  having sent its one request; \<open>send_message\<close>, when the refusals carry a JSON body,
  prints one line for each part and returns, having sent one request for each part (no
  request is sent twice). When \<open>requests.post\<close> raises, the exception reaches the caller.
\<close>

theorem notifier_failure_logged:
  "(\<not> ok resp \<longrightarrow>
      snd (send_document (Some resp) chat_id file_name file_bytes caption) = Inr () \<and>
      requests (fst (send_document (Some resp) chat_id file_name file_bytes caption)) =
        [SendDocument chat_id file_name file_bytes caption] \<and>
      length (prints (fst (send_document (Some resp) chat_id file_name file_bytes caption))) = 1) \<and>
   ((\<forall>k < length (chunks text). \<exists>r. tg k = Some r \<and> \<not> ok r \<and> json r \<noteq> None) \<longrightarrow>
      snd (send_message tg chat_id text reply_to) = Inr () \<and>
      requests (fst (send_message tg chat_id text reply_to)) =
        message_requests chat_id text reply_to \<and>
      length (prints (fst (send_message tg chat_id text reply_to))) = length (chunks text)) \<and>
   snd (send_document None chat_id file_name file_bytes caption) = Inl RequestException \<and>
   (text \<noteq> [] \<and> tg 0 = None \<longrightarrow>
      snd (send_message tg chat_id text reply_to) = Inl RequestException)"
proof -
  have doc: "\<not> ok resp \<longrightarrow>
      snd (send_document (Some resp) chat_id file_name file_bytes caption) = Inr () \<and>
      requests (fst (send_document (Some resp) chat_id file_name file_bytes caption)) =
        [SendDocument chat_id file_name file_bytes caption] \<and>
      length (prints (fst (send_document (Some resp) chat_id file_name file_bytes caption))) = 1"
    by (simp add: send_document_response)
  have msg: "(\<forall>k < length (chunks text). \<exists>r. tg k = Some r \<and> \<not> ok r \<and> json r \<noteq> None) \<longrightarrow>
      snd (send_message tg chat_id text reply_to) = Inr () \<and>
      requests (fst (send_message tg chat_id text reply_to)) =
        message_requests chat_id text reply_to \<and>
      length (prints (fst (send_message tg chat_id text reply_to))) = length (chunks text)"
  proof
    assume a: "\<forall>k < length (chunks text). \<exists>r. tg k = Some r \<and> \<not> ok r \<and> json r \<noteq> None"
    then have ans: "\<forall>k < length (py_range 0 (length text) max_len). answers (tg (0 + k))"
      by (auto simp: chunks_def answers_def)
    from a have ref: "\<forall>n < length (py_range 0 (length text) max_len).
        \<exists>r. tg (0 + n) = Some r \<and> \<not> ok r \<and> json r \<noteq> None"
      by (simp add: chunks_def)
    show "snd (send_message tg chat_id text reply_to) = Inr () \<and>
      requests (fst (send_message tg chat_id text reply_to)) =
        message_requests chat_id text reply_to \<and>
      length (prints (fst (send_message tg chat_id text reply_to))) = length (chunks text)"
      using send_message_loop_answers [OF ans, of chat_id "text" reply_to]
            send_message_loop_failed [OF ref, of chat_id "text" reply_to]
      by (simp add: send_message_def message_requests_def chunks_def comp_def)
  qed
  have down: "snd (send_document None chat_id file_name file_bytes caption) = Inl RequestException"
    by (simp add: send_document_def)
  have mdown: "text \<noteq> [] \<and> tg 0 = None \<longrightarrow>
      snd (send_message tg chat_id text reply_to) = Inl RequestException"
    by (simp add: send_message_def max_len_def py_range.simps [of 0] send_telegram_request_def)
  from doc msg down mdown show ?thesis by blast
qed

theorem notifier_failure_logged_witness:
  "\<not> ok error_response \<and> platform_refuses 0 = Some error_response \<and>
   json error_response \<noteq> None \<and>
   snd (send_document (Some error_response) 7 (ascii ''a.txt'') [] []) = Inr () \<and>
   snd (send_message platform_refuses 7 (ascii ''hi'') None) = Inr () \<and>
   length (prints (fst (send_message platform_refuses 7 (ascii ''hi'') None))) = 1"
  using notifier_failure_logged [of error_response 7 "ascii ''a.txt''" "[]" "[]" "ascii ''hi''"
          platform_refuses None]
  by (simp add: ok_def error_response_def platform_refuses_def chunks_short ascii_def)

subsection \<open>Order submission\<close>

lemma requests_create_transcription:
  "requests (fst (create_transcription post url language service)) =
     [CreateOrder url service language]"
  by (simp add: create_transcription_def split: option.splits)

text \<open>
  Claim C8 as stated fails on "any non-2xx response": \<open>raise_for_status\<close> raises for
  the statuses 400 to 599 only, so a response with status 300 whose body carries the
  identifier is accepted and its identifier returned.
\<close>

theorem create_transcription_non_2xx_counterexample:
  "\<not> (200 \<le> status_code multiple_choices_response \<and> status_code multiple_choices_response < 300) \<and>
   snd (create_transcription (Some multiple_choices_response) (ascii ''https://x'')
          (ascii ''en-US'') (ascii ''Standard'')) = Inr (ascii ''abc123'')"
  by (simp add: create_transcription_def raise_for_status_def multiple_choices_response_def
        created_response_def)

text \<open>
  Claim C8, amended. For every response to the creation request: a 2xx response whose
  body has the identifier field makes the call return that identifier; a response with a
  status from 400 to 599 makes it raise \<open>HTTPError\<close>; a body that is not JSON or lacks
  the field makes it raise; and it raises in no other case. It sends one request.
\<close>

theorem create_transcription_result:
  "(200 \<le> status_code resp \<and> status_code resp < 300 \<and> order_id_of resp = Some order_id \<longrightarrow>
      snd (create_transcription (Some resp) url language service) = Inr order_id) \<and>
   (400 \<le> status_code resp \<and> status_code resp < 600 \<longrightarrow>
      snd (create_transcription (Some resp) url language service) = Inl (HTTPError resp)) \<and>
   (order_id_of resp = None \<longrightarrow>
      (\<exists>e. snd (create_transcription (Some resp) url language service) = Inl e)) \<and>
   ((\<exists>e. snd (create_transcription (Some resp) url language service) = Inl e) \<longleftrightarrow>
      (400 \<le> status_code resp \<and> status_code resp < 600) \<or> order_id_of resp = None) \<and>
   requests (fst (create_transcription (Some resp) url language service)) =
     [CreateOrder url service language]"
  by (auto simp: create_transcription_def raise_for_status_def order_id_of_def
           split: option.splits)

theorem create_transcription_result_witness:
  "order_id_of created_response = Some (ascii ''abc123'') \<and>
   snd (create_transcription (Some created_response) (ascii ''https://x'') (ascii ''en-US'')
          (ascii ''Standard'')) = Inr (ascii ''abc123'') \<and>
   snd (create_transcription (Some bad_request_response) (ascii ''https://x'') (ascii ''en-US'')
          (ascii ''Standard'')) = Inl (HTTPError bad_request_response) \<and>
   order_id_of no_identifier_response = None \<and>
   snd (create_transcription (Some no_identifier_response) (ascii ''https://x'') (ascii ''en-US'')
          (ascii ''Standard'')) = Inl (KeyError (ascii ''order_id''))"
  using create_transcription_result [of created_response "ascii ''abc123''" "ascii ''https://x''"
          "ascii ''en-US''" "ascii ''Standard''"]
        create_transcription_result [of bad_request_response "ascii ''abc123''" "ascii ''https://x''"
          "ascii ''en-US''" "ascii ''Standard''"]
  by (simp add: created_response_def bad_request_response_def no_identifier_response_def
        order_id_of_def create_transcription_def raise_for_status_def)

subsection \<open>One pass of the poll loop\<close>

lemma length_str_nat_3: "100 \<le> n \<Longrightarrow> n \<le> 999 \<Longrightarrow> length (str_nat n) = 3"
proof -
  assume a: "100 \<le> n" "n \<le> 999"
  then have c: "\<not> n < 10" "\<not> n div 10 < 10" "n div 10 div 10 < 10" by arith+
  have 1: "str_nat n = str_nat (n div 10) @ [48 + n mod 10]"
    using c(1) str_nat.simps [of n] by (simp only: if_False)
  have 2: "str_nat (n div 10) = str_nat (n div 10 div 10) @ [48 + n div 10 mod 10]"
    using c(2) str_nat.simps [of "n div 10"] by (simp only: if_False)
  have 3: "str_nat (n div 10 div 10) = [48 + n div 10 div 10]"
    using c(3) str_nat.simps [of "n div 10 div 10"] by (simp only: if_True)
  show ?thesis by (simp add: 1 2 3)
qed

lemma length_str_int_3: "100 \<le> n \<Longrightarrow> n \<le> 999 \<Longrightarrow> length (str_int n) = 3"
  using length_str_nat_3 [of "nat n"] by (simp add: str_int_def)

lemma length_ascii: "length (ascii s) = length s"
  by (simp add: ascii_def)

lemma failure_text_short:
  "100 \<le> status \<Longrightarrow> status \<le> 999 \<Longrightarrow>
   length (ascii ''Failed to retrieve transcript (status: '' @ str_int status @ ascii '').'') \<le> 4096"
  by (simp add: length_str_int_3 length_ascii)

text \<open>
  Claim C1 as stated fails for "status 200 with the content field set": the code tests
  \<open>if content:\<close>, and a content field set to the empty string is false. The pass then
  sends a message and no document.
\<close>

theorem poll_iteration_empty_content_counterexample:
  "empty_content_data (ascii ''content'') = Some [] \<and>
   poll_iteration platform_ok 30 (ascii ''abc123'') 7 200 empty_content_data =
     Break ([Http (SendMessage 7
               (ascii ''Transcription completed but no content was returned.'') None)],
            Inr ())"
  by (simp add: poll_iteration_def empty_content_data_def truthy_def send_message_single
        send_telegram_request_def platform_ok_def ok_response_def ok_def ascii_def)

lemma requests_send_document:
  "requests (fst (send_document post chat_id file_name file_bytes caption)) =
     [SendDocument chat_id file_name file_bytes caption]"
  by (simp add: send_document_def split: option.splits)

text \<open>
  Claim C1, amended. For every pass of the poll loop: status 202 makes the task print,
  sleep the poll interval and go round again; status 200 with a non-empty content (free
  of surrogates, so that it can be encoded) ends the loop with exactly one document
  upload, of the encoded content, and no message; status 200 with no content or an
  empty one and a non-empty presigned URL ends the loop with one \<open>send_message\<close> call
  whose text ends with that URL, which is one message when the URL has at most 4000
  code points; any other status ends the loop with one \<open>send_message\<close> call whose text
  carries the status code, which is one message for every three-digit status.
\<close>

theorem poll_iteration_cases:
  "(status = 202 \<longrightarrow>
      poll_iteration tg poll_interval order_id chat_id status data =
        Continue [Print (ascii ''[Poll] Order '' @ order_id @ ascii '' still processing...''),
                  Sleep poll_interval]) \<and>
   (status = 200 \<and> data (ascii ''content'') = Some c \<and> c \<noteq> [] \<and> encodable c \<longrightarrow>
      (\<exists>evs r. poll_iteration tg poll_interval order_id chat_id status data = Break (evs, r) \<and>
         requests evs =
           [SendDocument chat_id (order_id @ ascii ''.txt'') (concat (map utf8_char c))
              (ascii ''Here is your transcript!'')])) \<and>
   (status = 200 \<and> \<not> truthy (data (ascii ''content'')) \<and>
    data (ascii ''presigned_url'') = Some u \<and> u \<noteq> [] \<longrightarrow>
      poll_iteration tg poll_interval order_id chat_id status data =
        Break (send_message tg chat_id (ascii ''Transcription is ready: '' @ u) None) \<and>
      (length u \<le> 4000 \<longrightarrow>
         requests (fst (send_message tg chat_id (ascii ''Transcription is ready: '' @ u) None)) =
           [SendMessage chat_id (ascii ''Transcription is ready: '' @ u) None])) \<and>
   (status \<noteq> 200 \<and> status \<noteq> 202 \<longrightarrow>
      poll_iteration tg poll_interval order_id chat_id status data =
        Break (send_message tg chat_id
                 (ascii ''Failed to retrieve transcript (status: '' @ str_int status @ ascii '').'')
                 None) \<and>
      (100 \<le> status \<and> status \<le> 999 \<longrightarrow>
         requests (fst (send_message tg chat_id
                 (ascii ''Failed to retrieve transcript (status: '' @ str_int status @ ascii '').'')
                 None)) =
           [SendMessage chat_id
              (ascii ''Failed to retrieve transcript (status: '' @ str_int status @ ascii '').'')
              None]))"
proof -
  have a: "status = 202 \<longrightarrow>
      poll_iteration tg poll_interval order_id chat_id status data =
        Continue [Print (ascii ''[Poll] Order '' @ order_id @ ascii '' still processing...''),
                  Sleep poll_interval]"
    by (simp add: poll_iteration_def)
  have b: "status = 200 \<and> data (ascii ''content'') = Some c \<and> c \<noteq> [] \<and> encodable c \<longrightarrow>
      (\<exists>evs r. poll_iteration tg poll_interval order_id chat_id status data = Break (evs, r) \<and>
         requests evs =
           [SendDocument chat_id (order_id @ ascii ''.txt'') (concat (map utf8_char c))
              (ascii ''Here is your transcript!'')])"
  proof
    assume h: "status = 200 \<and> data (ascii ''content'') = Some c \<and> c \<noteq> [] \<and> encodable c"
    then have "poll_iteration tg poll_interval order_id chat_id status data =
        Break (send_document (tg 0) chat_id (order_id @ ascii ''.txt'') (concat (map utf8_char c))
                 (ascii ''Here is your transcript!''))"
      by (simp add: poll_iteration_def truthy_def encode_utf8_def)
    then show "\<exists>evs r. poll_iteration tg poll_interval order_id chat_id status data = Break (evs, r) \<and>
         requests evs =
           [SendDocument chat_id (order_id @ ascii ''.txt'') (concat (map utf8_char c))
              (ascii ''Here is your transcript!'')]"
      using requests_send_document [of "tg 0" chat_id "order_id @ ascii ''.txt''"
              "concat (map utf8_char c)" "ascii ''Here is your transcript!''"]
      by (cases "send_document (tg 0) chat_id (order_id @ ascii ''.txt'') (concat (map utf8_char c))
                 (ascii ''Here is your transcript!'')") simp
  qed
  have c: "status = 200 \<and> \<not> truthy (data (ascii ''content'')) \<and>
    data (ascii ''presigned_url'') = Some u \<and> u \<noteq> [] \<longrightarrow>
      poll_iteration tg poll_interval order_id chat_id status data =
        Break (send_message tg chat_id (ascii ''Transcription is ready: '' @ u) None) \<and>
      (length u \<le> 4000 \<longrightarrow>
         requests (fst (send_message tg chat_id (ascii ''Transcription is ready: '' @ u) None)) =
           [SendMessage chat_id (ascii ''Transcription is ready: '' @ u) None])"
    by (simp add: poll_iteration_def truthy_def send_message_single_requests length_ascii)
  have d: "status \<noteq> 200 \<and> status \<noteq> 202 \<longrightarrow>
      poll_iteration tg poll_interval order_id chat_id status data =
        Break (send_message tg chat_id
                 (ascii ''Failed to retrieve transcript (status: '' @ str_int status @ ascii '').'')
                 None) \<and>
      (100 \<le> status \<and> status \<le> 999 \<longrightarrow>
         requests (fst (send_message tg chat_id
                 (ascii ''Failed to retrieve transcript (status: '' @ str_int status @ ascii '').'')
                 None)) =
           [SendMessage chat_id
              (ascii ''Failed to retrieve transcript (status: '' @ str_int status @ ascii '').'')
              None])"
  proof (intro impI conjI)
    assume "status \<noteq> 200 \<and> status \<noteq> 202"
    then show "poll_iteration tg poll_interval order_id chat_id status data =
        Break (send_message tg chat_id
                 (ascii ''Failed to retrieve transcript (status: '' @ str_int status @ ascii '').'')
                 None)"
      by (simp add: poll_iteration_def)
  next
    assume "100 \<le> status \<and> status \<le> 999"
    then have "length (ascii ''Failed to retrieve transcript (status: '' @ str_int status @
                 ascii '').'') \<le> 4096"
      using failure_text_short [of status] by simp
    moreover have "ascii ''Failed to retrieve transcript (status: '' @ str_int status @
                 ascii '').'' \<noteq> []"
      by (simp add: ascii_def)
    ultimately show "requests (fst (send_message tg chat_id
                 (ascii ''Failed to retrieve transcript (status: '' @ str_int status @ ascii '').'')
                 None)) =
           [SendMessage chat_id
              (ascii ''Failed to retrieve transcript (status: '' @ str_int status @ ascii '').'')
              None]"
      by (rule send_message_single_requests [rotated])
  qed
  from a b c d show ?thesis by blast
qed


theorem poll_iteration_cases_witness:
  "poll_iteration platform_ok 30 (ascii ''abc123'') 7 202 Map.empty =
     Continue [Print (ascii ''[Poll] Order abc123 still processing...''), Sleep 30] \<and>
   hello_data (ascii ''content'') = Some (ascii ''hello'') \<and> encodable (ascii ''hello'') \<and>
   poll_iteration platform_ok 30 (ascii ''abc123'') 7 200 hello_data =
     Break ([Http (SendDocument 7 (ascii ''abc123.txt'') [104, 101, 108, 108, 111]
                     (ascii ''Here is your transcript!''))], Inr ()) \<and>
   truthy (link_data (ascii ''content'')) = False \<and>
   poll_iteration platform_ok 30 (ascii ''abc123'') 7 200 link_data =
     Break ([Http (SendMessage 7 (ascii ''Transcription is ready: https://files/abc123'') None)],
            Inr ()) \<and>
   poll_iteration platform_ok 30 (ascii ''abc123'') 7 404 Map.empty =
     Break ([Http (SendMessage 7 (ascii ''Failed to retrieve transcript (status: 404).'') None)],
            Inr ())"
  using poll_iteration_cases [of 202 platform_ok 30 "ascii ''abc123''" 7 Map.empty]
        poll_iteration_cases [of 200 platform_ok 30 "ascii ''abc123''" 7 hello_data "ascii ''hello''"]
        poll_iteration_cases [of 200 platform_ok 30 "ascii ''abc123''" 7 link_data _
           "ascii ''https://files/abc123''"]
        poll_iteration_cases [of 404 platform_ok 30 "ascii ''abc123''" 7 Map.empty]
  by (simp add: poll_iteration_def hello_data_def link_data_def truthy_def encode_utf8_def
        encodable_def utf8_char_def send_document_def send_message_single
        send_telegram_request_def platform_ok_def ok_response_def ok_def ascii_def
        str_int_def str_nat.simps)

subsection \<open>The poll loop\<close>

lemma export_transcription_events:
  "fst (export_transcription post order_id) = [Http (ExportOrder order_id)]"
  by (simp add: export_transcription_def split: option.splits)

lemma export_status_Some:
  "export_status post order_id = Some status \<longleftrightarrow>
     (\<exists>data. export_transcription post order_id = ([Http (ExportOrder order_id)], Inr (status, data)))"
  using export_transcription_events [of post order_id]
  by (cases "export_transcription post order_id")
     (auto simp: export_status_def split: sum.splits)

lemma waiting_Suc:
  "waiting order_id poll_interval (Suc n) =
     [Http (ExportOrder order_id),
      Print (ascii ''[Poll] Order '' @ order_id @ ascii '' still processing...''),
      Sleep poll_interval] @ waiting order_id poll_interval n"
  by (simp add: waiting_def)

lemma sleeps_append: "sleeps (xs @ ys) = sleeps xs @ sleeps ys"
  by (induction xs rule: sleeps.induct) simp_all




lemma poll_loop_202:
  assumes "export_status (ex k) order_id = Some 202"
  shows "poll_loop ex tg poll_interval order_id chat_id k acc =
         poll_loop ex tg poll_interval order_id chat_id (Suc k)
           (acc @ waiting order_id poll_interval 1)"
proof -
  from assms obtain data where
    "export_transcription (ex k) order_id = ([Http (ExportOrder order_id)], Inr (202, data))"
    by (auto simp: export_status_Some)
  then show ?thesis
    by (subst poll_loop.simps) (simp add: poll_iteration_def waiting_def)
qed

lemma poll_loop_skip:
  "(\<forall>j < n. export_status (ex (k + j)) order_id = Some 202) \<Longrightarrow>
   poll_loop ex tg poll_interval order_id chat_id k acc =
   poll_loop ex tg poll_interval order_id chat_id (k + n)
     (acc @ waiting order_id poll_interval n)"
proof (induction n arbitrary: k acc)
  case 0
  then show ?case by (simp add: waiting_def)
next
  case (Suc n)
  from Suc.prems [rule_format, of 0] have first: "export_status (ex k) order_id = Some 202"
    by simp
  have rest: "\<forall>j < n. export_status (ex (Suc k + j)) order_id = Some 202"
  proof (intro allI impI)
    fix j assume "j < n"
    with Suc.prems [rule_format, of "Suc j"]
    show "export_status (ex (Suc k + j)) order_id = Some 202" by simp
  qed
  have "poll_loop ex tg poll_interval order_id chat_id k acc =
        poll_loop ex tg poll_interval order_id chat_id (Suc k)
          (acc @ waiting order_id poll_interval 1)"
    using first by (rule poll_loop_202)
  also have "\<dots> = poll_loop ex tg poll_interval order_id chat_id (Suc k + n)
          ((acc @ waiting order_id poll_interval 1) @ waiting order_id poll_interval n)"
    using rest by (rule Suc.IH)
  finally show ?case by (simp add: waiting_def)
qed


















lemma utf8_hello: "encode_utf8 (ascii ''hello'') = Inr [104, 101, 108, 108, 111]"
  by (simp add: encode_utf8_def encodable_def utf8_char_def ascii_def)

lemma export_returned:
  "snd (export_transcription post order_id) = Inr res \<Longrightarrow>
   export_transcription post order_id = ([Http (ExportOrder order_id)], Inr res)"
  using export_transcription_events [of post order_id]
  by (cases "export_transcription post order_id") simp

text \<open>
  Claim C9. For the order "abc123", when the export calls return 202, then 202, then 200
  with a body whose content is "hello", the delivery task ends, and its events are: a
  poll, a sleep of the configured interval, a poll, a second sleep of the interval, a
  third poll, and then the upload of one document named abc123.txt whose bytes are the
  UTF-8 encoding of "hello" (followed at most by a printed line, when the platform
  refuses the upload). There is no other sleep and no other request.
\<close>

theorem poll_and_send_abc123:
  assumes "snd (export_transcription (ex 0) (ascii ''abc123'')) = Inr (202, d0)"
      and "snd (export_transcription (ex 1) (ascii ''abc123'')) = Inr (202, d1)"
      and "snd (export_transcription (ex 2) (ascii ''abc123'')) = Inr (200, d2)"
      and "d2 (ascii ''content'') = Some (ascii ''hello'')"
  shows "\<exists>logs r.
           poll_and_send ex tg poll_interval (ascii ''abc123'') chat_id =
             Some ([Http (ExportOrder (ascii ''abc123'')),
                    Print (ascii ''[Poll] Order abc123 still processing...''),
                    Sleep poll_interval,
                    Http (ExportOrder (ascii ''abc123'')),
                    Print (ascii ''[Poll] Order abc123 still processing...''),
                    Sleep poll_interval,
                    Http (ExportOrder (ascii ''abc123'')),
                    Http (SendDocument chat_id (ascii ''abc123.txt'') [104, 101, 108, 108, 111]
                            (ascii ''Here is your transcript!''))] @ logs, r) \<and>
           sleeps logs = [] \<and> requests logs = []"
proof -
  let ?doc = "send_document (tg 0) chat_id (ascii ''abc123.txt'') [104, 101, 108, 108, 111]
                (ascii ''Here is your transcript!'')"
  have s: "\<forall>j < 2. export_status (ex (0 + j)) (ascii ''abc123'') = Some 202"
  proof (intro allI impI)
    fix j :: nat assume "j < 2"
    then have "j = 0 \<or> j = 1" by arith
    with assms(1,2) show "export_status (ex (0 + j)) (ascii ''abc123'') = Some 202"
      by (auto simp: export_status_def)
  qed
  have "poll_loop ex tg poll_interval (ascii ''abc123'') chat_id 0 [] =
      poll_loop ex tg poll_interval (ascii ''abc123'') chat_id (0 + 2)
        ([] @ waiting (ascii ''abc123'') poll_interval 2)"
    using s by (rule poll_loop_skip)
  then have skip: "poll_loop ex tg poll_interval (ascii ''abc123'') chat_id 0 [] =
      poll_loop ex tg poll_interval (ascii ''abc123'') chat_id 2
        (waiting (ascii ''abc123'') poll_interval 2)"
    by (simp only: add_0 append_Nil)
  have it: "poll_iteration tg poll_interval (ascii ''abc123'') chat_id 200 d2 = Break ?doc"
    using assms(4) utf8_hello
    by (simp add: poll_iteration_def truthy_def ascii_def)
  have last: "poll_loop ex tg poll_interval (ascii ''abc123'') chat_id 2
        (waiting (ascii ''abc123'') poll_interval 2) =
      Some (waiting (ascii ''abc123'') poll_interval 2 @ [Http (ExportOrder (ascii ''abc123''))] @
            fst ?doc, snd ?doc)"
    using export_returned [OF assms(3)] it
    by (subst poll_loop.simps) (simp split: prod.splits)
  obtain logs where logs: "fst ?doc =
      Http (SendDocument chat_id (ascii ''abc123.txt'') [104, 101, 108, 108, 111]
              (ascii ''Here is your transcript!'')) # logs"
      "sleeps logs = []" "requests logs = []"
    by (cases "tg 0") (auto simp: send_document_def)
  have w: "waiting (ascii ''abc123'') poll_interval 2 =
      [Http (ExportOrder (ascii ''abc123'')),
       Print (ascii ''[Poll] Order abc123 still processing...''), Sleep poll_interval,
       Http (ExportOrder (ascii ''abc123'')),
       Print (ascii ''[Poll] Order abc123 still processing...''), Sleep poll_interval]"
    by (simp add: waiting_def numeral_2_eq_2 ascii_def)
  have "poll_and_send ex tg poll_interval (ascii ''abc123'') chat_id =
      Some (waiting (ascii ''abc123'') poll_interval 2 @ [Http (ExportOrder (ascii ''abc123''))] @
            fst ?doc, snd ?doc)"
    by (simp only: poll_and_send_def skip last)
  then have "poll_and_send ex tg poll_interval (ascii ''abc123'') chat_id =
      Some ([Http (ExportOrder (ascii ''abc123'')),
                    Print (ascii ''[Poll] Order abc123 still processing...''),
                    Sleep poll_interval,
                    Http (ExportOrder (ascii ''abc123'')),
                    Print (ascii ''[Poll] Order abc123 still processing...''),
                    Sleep poll_interval,
                    Http (ExportOrder (ascii ''abc123'')),
                    Http (SendDocument chat_id (ascii ''abc123.txt'') [104, 101, 108, 108, 111]
                            (ascii ''Here is your transcript!''))] @ logs, snd ?doc)"
    by (simp only: logs(1) w) simp
  with logs(2,3) show ?thesis by blast
qed

theorem poll_and_send_abc123_witness:
  "snd (export_transcription (done_at_third 0) (ascii ''abc123'')) = Inr (202, Map.empty) \<and>
   snd (export_transcription (done_at_third 1) (ascii ''abc123'')) = Inr (202, Map.empty) \<and>
   snd (export_transcription (done_at_third 2) (ascii ''abc123'')) = Inr (200, hello_data) \<and>
   hello_data (ascii ''content'') = Some (ascii ''hello'') \<and>
   sleeps (fst (the (poll_and_send done_at_third platform_ok 30 (ascii ''abc123'') 7))) = [30, 30] \<and>
   requests (fst (the (poll_and_send done_at_third platform_ok 30 (ascii ''abc123'') 7))) =
     [ExportOrder (ascii ''abc123''), ExportOrder (ascii ''abc123''),
      ExportOrder (ascii ''abc123''),
      SendDocument 7 (ascii ''abc123.txt'') [104, 101, 108, 108, 111]
        (ascii ''Here is your transcript!'')]"
proof -
  have 0: "snd (export_transcription (done_at_third 0) (ascii ''abc123'')) = Inr (202, Map.empty)"
    by (simp add: done_at_third_def export_transcription_def processing_response_def)
  have 1: "snd (export_transcription (done_at_third 1) (ascii ''abc123'')) = Inr (202, Map.empty)"
    by (simp add: done_at_third_def export_transcription_def processing_response_def)
  have 2: "snd (export_transcription (done_at_third 2) (ascii ''abc123'')) = Inr (200, hello_data)"
    by (simp add: done_at_third_def export_transcription_def hello_response_def ascii_def)
  have 3: "hello_data (ascii ''content'') = Some (ascii ''hello'')"
    by (simp add: hello_data_def)
  from poll_and_send_abc123 [OF 0 1 2 3, of platform_ok 30 7]
  obtain logs r where
    "poll_and_send done_at_third platform_ok 30 (ascii ''abc123'') 7 =
       Some ([Http (ExportOrder (ascii ''abc123'')),
              Print (ascii ''[Poll] Order abc123 still processing...''), Sleep 30,
              Http (ExportOrder (ascii ''abc123'')),
              Print (ascii ''[Poll] Order abc123 still processing...''), Sleep 30,
              Http (ExportOrder (ascii ''abc123'')),
              Http (SendDocument 7 (ascii ''abc123.txt'') [104, 101, 108, 108, 111]
                      (ascii ''Here is your transcript!''))] @ logs, r)"
    "sleeps logs = []" "requests logs = []"
    by blast
  then have "sleeps (fst (the (poll_and_send done_at_third platform_ok 30 (ascii ''abc123'') 7))) =
       [30, 30] \<and>
     requests (fst (the (poll_and_send done_at_third platform_ok 30 (ascii ''abc123'') 7))) =
     [ExportOrder (ascii ''abc123''), ExportOrder (ascii ''abc123''),
      ExportOrder (ascii ''abc123''),
      SendDocument 7 (ascii ''abc123.txt'') [104, 101, 108, 108, 111]
        (ascii ''Here is your transcript!'')]"
    by (simp add: sleeps_append requests_append)
  with 0 1 2 3 show ?thesis by simp
qed

end
